theory Spec2Isabelle
  imports Main "HOL-Library.Word" "HOL-Library.AList"
begin

section \<open>Data model\<close>

text \<open>
  The repository holds two AssemblyScript contracts for the NEAR runtime:
  the token registry with escrow delegation (\<^verbatim>\<open>index_old.ts\<close>) and the
  fungible-token ledger (the NEP-141 file).  Account identifiers are strings, token
  identifiers and the supply counter are \<^verbatim>\<open>u64\<close>, balances are \<^verbatim>\<open>u128\<close>;
  both integer types wrap on overflow, as the words below do.
\<close>

type_synonym AccountId = string
type_synonym u64 = "64 word"
type_synonym u128 = "128 word"
type_synonym TokenId = u64

text \<open>
  Every \<^verbatim>\<open>assert(cond, MESSAGE)\<close> of the source aborts the invocation with its message.
  The constructors are the message constants of \<^verbatim>\<open>models.ts\<close>;
  \<open>ERROR_KEY_NOT_PRESENT\<close> is the abort of the SDK's \<^verbatim>\<open>getSome\<close> on a missing key.
\<close>

datatype error =
    ERROR_NO_ESCROW_REGISTERED
  | ERROR_CALLER_ID_DOES_NOT_MATCH_EXPECTATION
  | ERROR_MAXIMUM_TOKEN_LIMIT_REACHED
  | ERROR_OWNER_ID_DOES_NOT_MATCH_EXPECTATION
  | ERROR_TOKEN_NOT_OWNED_BY_CALLER
  | ERROR_INSUFFICIENT_FUNDS
  | ERROR_DEPOSIT_DOES_NOT_MATCH_EXPECTATION
  | ERROR_KEY_NOT_PRESENT

subsection \<open>The SDK's persistent map\<close>

text \<open>
  \<^verbatim>\<open>PersistentMap<K, V>\<close> is a finite key-value store.  It is kept as an association
  list (at most one entry per key once it is only changed through \<open>PersistentMap_set\<close>
  and \<open>PersistentMap_delete\<close>), so that the sum of all stored balances is computable.
  \<^verbatim>\<open>get(key)\<close> returns \<^verbatim>\<open>null\<close> for a missing key (\<open>None\<close>), \<^verbatim>\<open>get(key, d)\<close>
  returns \<open>d\<close>, \<^verbatim>\<open>getSome(key)\<close> aborts, \<^verbatim>\<open>delete\<close> of a missing key does nothing.
\<close>

type_synonym ('k, 'v) PersistentMap = "('k \<times> 'v) list"

definition PersistentMap_get :: "('k, 'v) PersistentMap \<Rightarrow> 'k \<Rightarrow> 'v option" where
  "PersistentMap_get m k = map_of m k"

definition PersistentMap_get_default :: "('k, 'v) PersistentMap \<Rightarrow> 'k \<Rightarrow> 'v \<Rightarrow> 'v" where
  "PersistentMap_get_default m k d = (case map_of m k of None \<Rightarrow> d | Some v \<Rightarrow> v)"

definition PersistentMap_getSome :: "('k, 'v) PersistentMap \<Rightarrow> 'k \<Rightarrow> error + 'v" where
  "PersistentMap_getSome m k =
     (case map_of m k of None \<Rightarrow> Inl ERROR_KEY_NOT_PRESENT | Some v \<Rightarrow> Inr v)"

definition PersistentMap_contains :: "('k, 'v) PersistentMap \<Rightarrow> 'k \<Rightarrow> bool" where
  "PersistentMap_contains m k = (case map_of m k of None \<Rightarrow> False | Some v \<Rightarrow> True)"

definition PersistentMap_set :: "('k, 'v) PersistentMap \<Rightarrow> 'k \<Rightarrow> 'v \<Rightarrow> ('k, 'v) PersistentMap" where
  "PersistentMap_set m k v = AList.update k v m"

definition PersistentMap_delete :: "('k, 'v) PersistentMap \<Rightarrow> 'k \<Rightarrow> ('k, 'v) PersistentMap" where
  "PersistentMap_delete m k = AList.delete k m"

subsection \<open>The execution context\<close>

text \<open>
  What the runtime supplies per invocation: \<^verbatim>\<open>context.predecessor\<close> (the immediate
  caller), \<^verbatim>\<open>Context.sender\<close> (the account the ledger debits), the contract's own
  account, and the attached deposit.
\<close>

record Context =
  predecessor :: AccountId
  sender :: AccountId
  contractName :: AccountId
  attachedDeposit :: u128

subsection \<open>Constants of \<^verbatim>\<open>models.ts\<close>\<close>

definition MAX_SUPPLY :: u64 where
  "MAX_SUPPLY = 10"

text \<open>
  Modelled from the spec: \<^verbatim>\<open>toYocto\<close> of \<^verbatim>\<open>utils\<close> is not among the sources, so
  the value of \<^verbatim>\<open>EXPECTED_DEPOSIT = toYocto(1)\<close> is taken from the spec's words (and the
  comment beside the constant): exactly one unit of the smallest native denomination.
\<close>

definition EXPECTED_DEPOSIT :: u128 where
  "EXPECTED_DEPOSIT = 1"

section \<open>The token registry and the escrow directory (\<^verbatim>\<open>index_old.ts\<close>)\<close>

text \<open>
  The contract's state: the two persistent maps and the storage slot \<^verbatim>\<open>TOTAL_SUPPLY\<close>
  (\<open>None\<close> while nothing was stored under that key).
\<close>

record Contract =
  tokenToOwner :: "(TokenId, AccountId) PersistentMap"
  escrowAccess :: "(AccountId, AccountId) PersistentMap"
  TOTAL_SUPPLY :: "u64 option"

definition storage_getPrimitive :: "u64 option \<Rightarrow> u64 \<Rightarrow> u64" where
  "storage_getPrimitive slot d = (case slot of None \<Rightarrow> d | Some v \<Rightarrow> v)"

definition array_includes :: "'a list \<Rightarrow> 'a \<Rightarrow> bool" where
  "array_includes xs x = (x \<in> set xs)"

definition grant_access :: "Context \<Rightarrow> Contract \<Rightarrow> AccountId \<Rightarrow> Contract" where
  "grant_access ctx st escrow_account_id =
     st\<lparr>escrowAccess := PersistentMap_set (escrowAccess st) (predecessor ctx) escrow_account_id\<rparr>"

definition revoke_access :: "Context \<Rightarrow> Contract \<Rightarrow> AccountId \<Rightarrow> Contract" where
  "revoke_access ctx st escrow_account_id =
     st\<lparr>escrowAccess := PersistentMap_delete (escrowAccess st) (predecessor ctx)\<rparr>"

text \<open>
  \<^verbatim>\<open>transfer_from\<close> binds \<^verbatim>\<open>context.predecessor\<close> to the name \<^verbatim>\<open>prdecessor\<close>, which
  it never reads again.  It reads the recorded owner (aborting on an unminted token),
  checks the owner against \<^verbatim>\<open>owner_id\<close>, reads the owner's escrow (\<^verbatim>\<open>null\<close> when there
  is none) and tests whether the array of the two includes \<^verbatim>\<open>predecessor\<close>, a name that
  is bound nowhere in the file.  What that name holds is not given by the function, so
  it is the parameter \<open>predecessor'\<close> here (\<open>None\<close> when it holds no account).  On
  success the ownership record is overwritten.
\<close>

definition transfer_from ::
  "Context \<Rightarrow> Contract \<Rightarrow> AccountId option \<Rightarrow> AccountId \<Rightarrow> AccountId \<Rightarrow> TokenId
     \<Rightarrow> error + Contract" where
  "transfer_from ctx st predecessor' owner_id new_owner_id token_id =
     (let prdecessor = predecessor ctx in
      case PersistentMap_getSome (tokenToOwner st) token_id of
        Inl e \<Rightarrow> Inl e
      | Inr owner \<Rightarrow>
          if owner \<noteq> owner_id then Inl ERROR_OWNER_ID_DOES_NOT_MATCH_EXPECTATION
          else
            let escrow = PersistentMap_get (escrowAccess st) owner in
            if \<not> array_includes [Some owner, escrow] predecessor'
            then Inl ERROR_CALLER_ID_DOES_NOT_MATCH_EXPECTATION
            else Inr (st\<lparr>tokenToOwner := PersistentMap_set (tokenToOwner st) token_id new_owner_id\<rparr>))"

definition check_access :: "Context \<Rightarrow> Contract \<Rightarrow> AccountId \<Rightarrow> error + bool" where
  "check_access ctx st account_id =
     (let caller = predecessor ctx in
      if \<not> caller \<noteq> account_id then Inl ERROR_CALLER_ID_DOES_NOT_MATCH_EXPECTATION
      else if \<not> PersistentMap_contains (escrowAccess st) account_id then Inr False
      else
        case PersistentMap_getSome (escrowAccess st) account_id of
          Inl e \<Rightarrow> Inl e
        | Inr escrow \<Rightarrow> Inr (escrow = caller))"

definition get_token_owner :: "Contract \<Rightarrow> TokenId \<Rightarrow> error + AccountId" where
  "get_token_owner st token_id = PersistentMap_getSome (tokenToOwner st) token_id"

text \<open>
  Modelled from the spec: the direct path \<^verbatim>\<open>transfer(new_owner_id, token_id)\<close> is
  imported and exercised by the tests but its body is not among the sources.  Following
  the spec's words it overwrites the ownership record as \<open>transfer_from\<close> does, after
  the one check ``the caller is the recorded owner'', aborting with \<open>ERROR_TOKEN_NOT_OWNED_BY_CALLER\<close>
  (the message the tests expect; the spec's \<^verbatim>\<open>CallerNotOwner\<close>) otherwise, and aborting
  on an unminted token as \<open>get_token_owner\<close> does.
\<close>

definition transfer :: "Context \<Rightarrow> Contract \<Rightarrow> AccountId \<Rightarrow> TokenId \<Rightarrow> error + Contract" where
  "transfer ctx st new_owner_id token_id =
     (case get_token_owner st token_id of
        Inl e \<Rightarrow> Inl e
      | Inr owner \<Rightarrow>
          if predecessor ctx \<noteq> owner then Inl ERROR_TOKEN_NOT_OWNED_BY_CALLER
          else Inr (st\<lparr>tokenToOwner := PersistentMap_set (tokenToOwner st) token_id new_owner_id\<rparr>))"

text \<open>
  \<^verbatim>\<open>mint_to\<close>, the same text in both files.  The source declares \<^verbatim>\<open>const tokenId\<close>
  with no initialiser (its comment announces a value obtained off-chain), so the value is
  not computed by the function: it is the parameter \<open>tokenId\<close> here.  The counter read
  from storage (default 1) is only compared with \<open>MAX_SUPPLY\<close>; the ownership record is
  written under \<open>tokenId\<close>, the counter is overwritten with \<open>tokenId + 1\<close> (wrapping
  \<^verbatim>\<open>u64\<close> addition), and \<open>tokenId\<close> is returned.
\<close>

definition mint_to :: "Contract \<Rightarrow> TokenId \<Rightarrow> AccountId \<Rightarrow> error + (Contract \<times> u64)" where
  "mint_to st tokenId owner_id =
     (let currentSupply = storage_getPrimitive (TOTAL_SUPPLY st) 1 in
      if \<not> currentSupply \<le> MAX_SUPPLY then Inl ERROR_MAXIMUM_TOKEN_LIMIT_REACHED
      else Inr (st\<lparr>tokenToOwner := PersistentMap_set (tokenToOwner st) tokenId owner_id,
                    TOTAL_SUPPLY := Some (tokenId + 1)\<rparr>,
                tokenId))"

text \<open>A run of mints, each with the identifier its invocation happens to hold; the run
  stops at the first abort.  The result lists the identifiers returned, in order.\<close>

fun mint_all :: "Contract \<Rightarrow> (TokenId \<times> AccountId) list \<Rightarrow> error + (Contract \<times> u64 list)" where
  "mint_all st [] = Inr (st, [])"
| "mint_all st ((tokenId, owner_id) # rest) =
     (case mint_to st tokenId owner_id of
        Inl e \<Rightarrow> Inl e
      | Inr (st', t) \<Rightarrow>
          (case mint_all st' rest of
             Inl e \<Rightarrow> Inl e
           | Inr (st'', ts) \<Rightarrow> Inr (st'', t # ts)))"

definition empty_registry :: Contract where
  "empty_registry = \<lparr>tokenToOwner = [], escrowAccess = [], TOTAL_SUPPLY = None\<rparr>"

section \<open>The fungible-token ledger (NEP-141 file)\<close>

text \<open>
  The ledger's state is the one persistent map \<^verbatim>\<open>balances\<close>, read and written with
  account identifiers as keys and \<^verbatim>\<open>u128\<close> amounts as values (the default of every read
  is \<^verbatim>\<open>u128.Zero\<close>).  The \<^verbatim>\<open>amount\<close> argument is the \<^verbatim>\<open>u128\<close> the source compares
  and adds; parsing it from its string form is outside the contract.  The source's
  \<^verbatim>\<open>EXPECETED_DEPOSIT\<close> is read as the imported \<^verbatim>\<open>EXPECTED_DEPOSIT\<close>, and \<^verbatim>\<open>===\<close> as
  equality of values.  Read as identity of references, the deposit assertion would pass
  for no call and every transfer would abort with
  \<open>ERROR_DEPOSIT_DOES_NOT_MATCH_EXPECTATION\<close>; nothing below that speaks of a successful
  transfer holds outside the reading chosen here.
\<close>

record Ledger =
  balances :: "(AccountId, u128) PersistentMap"

definition ft_transfer ::
  "Context \<Rightarrow> Ledger \<Rightarrow> AccountId \<Rightarrow> u128 \<Rightarrow> string option \<Rightarrow> error + Ledger" where
  "ft_transfer ctx st receiver_id amount memo =
     (if attachedDeposit ctx \<noteq> EXPECTED_DEPOSIT then Inl ERROR_DEPOSIT_DOES_NOT_MATCH_EXPECTATION
      else
        let senderBalance = PersistentMap_get_default (balances st) (sender ctx) 0 in
        if \<not> senderBalance > amount then Inl ERROR_INSUFFICIENT_FUNDS
        else
          let receiverBalance = PersistentMap_get_default (balances st) receiver_id 0;
              b1 = PersistentMap_set (balances st) (sender ctx) (senderBalance - amount);
              b2 = PersistentMap_set b1 receiver_id (receiverBalance + amount)
          in Inr (st\<lparr>balances := b2\<rparr>))"

text \<open>
  \<^verbatim>\<open>ft_transfer_call\<close> has the body of \<^verbatim>\<open>ft_transfer\<close> and nothing after it: no
  call to the receiver is scheduled, no callback is registered and nothing is returned.
\<close>

definition ft_transfer_call ::
  "Context \<Rightarrow> Ledger \<Rightarrow> AccountId \<Rightarrow> u128 \<Rightarrow> string option \<Rightarrow> string \<Rightarrow> error + Ledger" where
  "ft_transfer_call ctx st receiver_id amount memo msg =
     (if attachedDeposit ctx \<noteq> EXPECTED_DEPOSIT then Inl ERROR_DEPOSIT_DOES_NOT_MATCH_EXPECTATION
      else
        let senderBalance = PersistentMap_get_default (balances st) (sender ctx) 0 in
        if \<not> senderBalance > amount then Inl ERROR_INSUFFICIENT_FUNDS
        else
          let receiverBalance = PersistentMap_get_default (balances st) receiver_id 0;
              b1 = PersistentMap_set (balances st) (sender ctx) (senderBalance - amount);
              b2 = PersistentMap_set b1 receiver_id (receiverBalance + amount)
          in Inr (st\<lparr>balances := b2\<rparr>))"

text \<open>
  \<^verbatim>\<open>ft_balance_of\<close> returns \<^verbatim>\<open>balances.get(account_id)\<close> with no default: the stored
  amount, or \<^verbatim>\<open>null\<close> (\<open>None\<close>) for an account with no record.
\<close>

definition ft_balance_of :: "Ledger \<Rightarrow> AccountId \<Rightarrow> u128 option" where
  "ft_balance_of st account_id = PersistentMap_get (balances st) account_id"

definition ft_total_supply :: "Ledger \<Rightarrow> u64" where
  "ft_total_supply st = MAX_SUPPLY"

text \<open>
  \<^verbatim>\<open>ft_resolve_transfer\<close> is one assertion, \<^verbatim>\<open>context.predecessor === sender_id\<close>, and
  an empty rest: the outcome of the receiver's call is never read, no balance is written
  and no value is returned (\<open>None\<close> in the second component).
\<close>

definition ft_resolve_transfer ::
  "Context \<Rightarrow> Ledger \<Rightarrow> AccountId \<Rightarrow> AccountId \<Rightarrow> u128 \<Rightarrow> error + (Ledger \<times> string option)" where
  "ft_resolve_transfer ctx st sender_id receiver_id amount =
     (if predecessor ctx \<noteq> sender_id then Inl ERROR_CALLER_ID_DOES_NOT_MATCH_EXPECTATION
      else Inr (st, None))"

text \<open>The sum of all recorded balances, as a natural number.\<close>

definition total_balance :: "Ledger \<Rightarrow> nat" where
  "total_balance st = sum_list (map (\<lambda>p. unat (snd p)) (balances st))"

section \<open>Delegated and direct transfer\<close>

lemma PersistentMap_get_set:
  "PersistentMap_get (PersistentMap_set m k v) k' = (if k' = k then Some v else PersistentMap_get m k')"
  by (simp add: PersistentMap_get_def PersistentMap_set_def update_conv')

lemma PersistentMap_get_delete:
  "PersistentMap_get (PersistentMap_delete m k) k' = (if k' = k then None else PersistentMap_get m k')"
  by (simp add: PersistentMap_get_def PersistentMap_delete_def delete_conv')

lemma PersistentMap_getSome_get:
  "PersistentMap_getSome m k = Inr v \<longleftrightarrow> PersistentMap_get m k = Some v"
  by (simp add: PersistentMap_getSome_def PersistentMap_get_def split: option.splits)

text \<open>
  Revoking when the caller has no escrow record returns the state as it was.
\<close>

lemma revoke_access_without_record:
  assumes "PersistentMap_get (escrowAccess st) (predecessor ctx) = None"
  shows "revoke_access ctx st d = st"
proof -
  from assms have "predecessor ctx \<notin> fst ` set (escrowAccess st)"
    by (simp add: PersistentMap_get_def map_of_eq_None_iff)
  then show ?thesis
    by (simp add: revoke_access_def PersistentMap_delete_def)
qed

text \<open>
  C10.  \<^verbatim>\<open>revoke_access\<close> never reads its argument: called by the same caller from the
  same state with any two delegate names it produces the same state.  In that state the
  caller has no escrow record, whatever was recorded before (the named delegate, another
  one, or nothing), every other account's escrow record is as before, and the ownership
  records and the supply counter are untouched.  The call has no failing branch: it
  always returns a state.
\<close>

theorem revoke_access_ignores_delegate:
  "revoke_access ctx st d1 = revoke_access ctx st d2
   \<and> PersistentMap_get (escrowAccess (revoke_access ctx st d1)) account
       = (if account = predecessor ctx then None else PersistentMap_get (escrowAccess st) account)
   \<and> tokenToOwner (revoke_access ctx st d1) = tokenToOwner st
   \<and> TOTAL_SUPPLY (revoke_access ctx st d1) = TOTAL_SUPPLY st"
  by (simp add: revoke_access_def PersistentMap_get_delete)

text \<open>
  The owner check does not involve the unbound name: for a minted token, naming anyone
  but the recorded owner as \<^verbatim>\<open>owner_id\<close> aborts with
  \<open>ERROR_OWNER_ID_DOES_NOT_MATCH_EXPECTATION\<close>.
\<close>

lemma transfer_from_owner_mismatch:
  assumes "PersistentMap_get (tokenToOwner st) t = Some owner" and "expected_owner \<noteq> owner"
  shows "transfer_from ctx st p expected_owner new_owner t = Inl ERROR_OWNER_ID_DOES_NOT_MATCH_EXPECTATION"
proof -
  from assms(1) have "PersistentMap_getSome (tokenToOwner st) t = Inr owner"
    by (simp add: PersistentMap_getSome_get)
  with assms(2) show ?thesis
    by (auto simp add: transfer_from_def)
qed

text \<open>
  Were the tested name bound to the caller (the binding line 47 makes under the other
  spelling), the authorisation would be the one the tests describe: the owner and the
  owner's recorded escrow move the token, every other caller is refused.
\<close>

lemma transfer_from_when_bound_to_caller:
  assumes "PersistentMap_get (tokenToOwner st) t = Some owner"
  shows "(predecessor ctx \<noteq> owner
            \<and> PersistentMap_get (escrowAccess st) owner \<noteq> Some (predecessor ctx) \<longrightarrow>
            transfer_from ctx st (Some (predecessor ctx)) owner new_owner t
              = Inl ERROR_CALLER_ID_DOES_NOT_MATCH_EXPECTATION)
       \<and> (predecessor ctx = owner \<or> PersistentMap_get (escrowAccess st) owner = Some (predecessor ctx) \<longrightarrow>
            (\<exists>st'. transfer_from ctx st (Some (predecessor ctx)) owner new_owner t = Inr st'
                   \<and> get_token_owner st' t = Inr new_owner
                   \<and> escrowAccess st' = escrowAccess st))"
proof -
  from assms have owner: "PersistentMap_getSome (tokenToOwner st) t = Inr owner"
    by (simp add: PersistentMap_getSome_get)
  have unauthorised: "transfer_from ctx st (Some (predecessor ctx)) owner new_owner t
      = Inl ERROR_CALLER_ID_DOES_NOT_MATCH_EXPECTATION"
    if "predecessor ctx \<noteq> owner" "PersistentMap_get (escrowAccess st) owner \<noteq> Some (predecessor ctx)"
    using that owner by (auto simp add: transfer_from_def array_includes_def Let_def)
  have authorised: "transfer_from ctx st (Some (predecessor ctx)) owner new_owner t =
      Inr (st\<lparr>tokenToOwner := PersistentMap_set (tokenToOwner st) t new_owner\<rparr>)"
    if "predecessor ctx = owner \<or> PersistentMap_get (escrowAccess st) owner = Some (predecessor ctx)"
    using that owner by (auto simp add: transfer_from_def array_includes_def Let_def)
  have recorded: "get_token_owner (st\<lparr>tokenToOwner := PersistentMap_set (tokenToOwner st) t new_owner\<rparr>) t = Inr new_owner"
    by (simp add: get_token_owner_def PersistentMap_getSome_get PersistentMap_get_set)
  show ?thesis
    using unauthorised authorised recorded by auto
qed

text \<open>
  C5.  The authorisation check of \<^verbatim>\<open>transfer_from\<close> never consults the caller: whatever
  the unbound name \<^verbatim>\<open>predecessor\<close> holds, the call gives the same result for every
  caller, so it cannot accept the owner and the owner's escrow while refusing everyone
  else.  At the registry where token 1 belongs to alice and alice's escrow is bob, no
  value of the name lets alice's call \<^verbatim>\<open>transfer_from(alice, carol, 1)\<close> succeed while
  carol's is refused as unauthorised; and with the name holding no account, alice's own
  call and bob's are both refused with \<open>ERROR_CALLER_ID_DOES_NOT_MATCH_EXPECTATION\<close>.
\<close>

theorem transfer_from_never_consults_caller:
  "transfer_from ctx st p owner_id new_owner_id token_id
     = transfer_from ctx' st p owner_id new_owner_id token_id
   \<and> \<not> ((\<exists>st'. transfer_from \<lparr>predecessor = ''alice'', sender = ''alice'', contractName = ''nft'', attachedDeposit = 0\<rparr>
              \<lparr>tokenToOwner = [(1, ''alice'')], escrowAccess = [(''alice'', ''bob'')], TOTAL_SUPPLY = Some 2\<rparr>
              p ''alice'' ''carol'' 1 = Inr st')
          \<and> transfer_from \<lparr>predecessor = ''carol'', sender = ''carol'', contractName = ''nft'', attachedDeposit = 0\<rparr>
              \<lparr>tokenToOwner = [(1, ''alice'')], escrowAccess = [(''alice'', ''bob'')], TOTAL_SUPPLY = Some 2\<rparr>
              p ''alice'' ''carol'' 1 = Inl ERROR_CALLER_ID_DOES_NOT_MATCH_EXPECTATION)
   \<and> transfer_from \<lparr>predecessor = ''alice'', sender = ''alice'', contractName = ''nft'', attachedDeposit = 0\<rparr>
        \<lparr>tokenToOwner = [(1, ''alice'')], escrowAccess = [(''alice'', ''bob'')], TOTAL_SUPPLY = Some 2\<rparr>
        None ''alice'' ''carol'' 1 = Inl ERROR_CALLER_ID_DOES_NOT_MATCH_EXPECTATION
   \<and> transfer_from \<lparr>predecessor = ''bob'', sender = ''bob'', contractName = ''nft'', attachedDeposit = 0\<rparr>
        \<lparr>tokenToOwner = [(1, ''alice'')], escrowAccess = [(''alice'', ''bob'')], TOTAL_SUPPLY = Some 2\<rparr>
        None ''alice'' ''carol'' 1 = Inl ERROR_CALLER_ID_DOES_NOT_MATCH_EXPECTATION"
  by (simp add: transfer_from_def PersistentMap_getSome_def PersistentMap_get_def
      array_includes_def)

text \<open>
  C6.  For a minted token \<open>t\<close> with recorded owner \<open>owner\<close>, the direct path
  \<^verbatim>\<open>transfer(new_owner, t)\<close> succeeds exactly when the caller is the recorded owner, and
  aborts with \<open>ERROR_TOKEN_NOT_OWNED_BY_CALLER\<close> (the spec's \<^verbatim>\<open>CallerNotOwner\<close>) for
  every other caller, the owner's recorded escrow included.
\<close>

theorem transfer_owner_only:
  assumes "PersistentMap_get (tokenToOwner st) t = Some owner"
  shows "((\<exists>st'. transfer ctx st new_owner t = Inr st') \<longleftrightarrow> predecessor ctx = owner)
       \<and> (predecessor ctx = owner \<longrightarrow>
            (\<exists>st'. transfer ctx st new_owner t = Inr st' \<and> get_token_owner st' t = Inr new_owner))
       \<and> (predecessor ctx \<noteq> owner \<longrightarrow> transfer ctx st new_owner t = Inl ERROR_TOKEN_NOT_OWNED_BY_CALLER)
       \<and> (predecessor ctx \<noteq> owner \<and> PersistentMap_get (escrowAccess st) owner = Some (predecessor ctx) \<longrightarrow>
            transfer ctx st new_owner t = Inl ERROR_TOKEN_NOT_OWNED_BY_CALLER)"
proof -
  from assms have "get_token_owner st t = Inr owner"
    by (simp add: get_token_owner_def PersistentMap_getSome_get)
  moreover have "get_token_owner (st\<lparr>tokenToOwner := PersistentMap_set (tokenToOwner st) t new_owner\<rparr>) t
      = Inr new_owner"
    by (simp add: get_token_owner_def PersistentMap_getSome_get PersistentMap_get_set)
  ultimately show ?thesis
    by (auto simp add: transfer_def)
qed

text \<open>
  At the same registry: alice, the owner, moves token 1 to carol; bob, her recorded
  escrow, is refused.
\<close>

theorem transfer_owner_only_witness:
  "PersistentMap_get (tokenToOwner \<lparr>tokenToOwner = [(1, ''alice'')], escrowAccess = [(''alice'', ''bob'')], TOTAL_SUPPLY = Some 2\<rparr>) 1 = Some ''alice''
   \<and> PersistentMap_get (escrowAccess \<lparr>tokenToOwner = [(1, ''alice'')], escrowAccess = [(''alice'', ''bob'')], TOTAL_SUPPLY = Some 2\<rparr>) ''alice'' = Some ''bob''
   \<and> (\<exists>st'. transfer \<lparr>predecessor = ''alice'', sender = ''alice'', contractName = ''nft'', attachedDeposit = 0\<rparr>
        \<lparr>tokenToOwner = [(1, ''alice'')], escrowAccess = [(''alice'', ''bob'')], TOTAL_SUPPLY = Some 2\<rparr>
        ''carol'' 1 = Inr st' \<and> get_token_owner st' 1 = Inr ''carol'')
   \<and> transfer \<lparr>predecessor = ''bob'', sender = ''bob'', contractName = ''nft'', attachedDeposit = 0\<rparr>
        \<lparr>tokenToOwner = [(1, ''alice'')], escrowAccess = [(''alice'', ''bob'')], TOTAL_SUPPLY = Some 2\<rparr>
        ''carol'' 1 = Inl ERROR_TOKEN_NOT_OWNED_BY_CALLER"
proof -
  let ?st = "\<lparr>tokenToOwner = [(1, ''alice'')], escrowAccess = [(''alice'', ''bob'')], TOTAL_SUPPLY = Some 2\<rparr>"
  let ?alice = "\<lparr>predecessor = ''alice'', sender = ''alice'', contractName = ''nft'', attachedDeposit = 0\<rparr>"
  let ?bob = "\<lparr>predecessor = ''bob'', sender = ''bob'', contractName = ''nft'', attachedDeposit = 0\<rparr>"
  have minted: "PersistentMap_get (tokenToOwner ?st) 1 = Some ''alice''"
    by (simp add: PersistentMap_get_def)
  have delegate: "PersistentMap_get (escrowAccess ?st) ''alice'' = Some ''bob''"
    by (simp add: PersistentMap_get_def)
  note spec = transfer_owner_only [OF minted]
  show ?thesis
    using minted delegate
      spec [where ctx = ?alice and new_owner = "''carol''"]
      spec [where ctx = ?bob and new_owner = "''carol''"]
    by simp
qed

section \<open>Minting\<close>

text \<open>
  What \<open>mint_to\<close> does with the identifier it holds: it succeeds exactly when the stored
  counter (default 1) is at most \<open>MAX_SUPPLY\<close>, returns the identifier unchanged, records
  the owner under it and stores the identifier plus one as the new counter.
\<close>

lemma mint_to_result:
  "mint_to st tokenId owner_id =
     (if storage_getPrimitive (TOTAL_SUPPLY st) 1 \<le> MAX_SUPPLY
      then Inr (st\<lparr>tokenToOwner := PersistentMap_set (tokenToOwner st) tokenId owner_id,
                    TOTAL_SUPPLY := Some (tokenId + 1)\<rparr>, tokenId)
      else Inl ERROR_MAXIMUM_TOKEN_LIMIT_REACHED)"
  by (simp add: mint_to_def Let_def)

lemma mint_to_owner:
  assumes "mint_to st tokenId owner_id = Inr (st', t)"
  shows "t = tokenId \<and> get_token_owner st' t = Inr owner_id"
  using assms
  by (auto simp add: mint_to_result get_token_owner_def PersistentMap_getSome_get
      PersistentMap_get_set split: if_splits)

text \<open>
  When each invocation holds the stored counter as its identifier (the indexing strategy
  the comment in the source describes), a mint below the limit returns the counter and
  advances it by one.
\<close>

lemma mint_to_counter_strategy:
  assumes "storage_getPrimitive (TOTAL_SUPPLY st) 1 = c" and "c \<le> MAX_SUPPLY"
  shows "\<exists>st'. mint_to st c owner_id = Inr (st', c)
           \<and> storage_getPrimitive (TOTAL_SUPPLY st') 1 = c + 1
           \<and> get_token_owner st' c = Inr owner_id"
  using assms
  by (simp add: mint_to_result storage_getPrimitive_def get_token_owner_def
      PersistentMap_getSome_get PersistentMap_get_set)

text \<open>
  C7.  The identifier \<open>mint_to\<close> returns is the unassigned \<^verbatim>\<open>tokenId\<close>, not the stored
  counter: from the empty registry, two mints whose invocations hold 0 both return 0.
  The first token is not 1, the identifiers do not increase, and the second mint
  overwrites the first token's owner.
\<close>

theorem mint_to_identifier_not_from_counter:
  "mint_to empty_registry 0 ''alice''
     = Inr (\<lparr>tokenToOwner = [(0, ''alice'')], escrowAccess = [], TOTAL_SUPPLY = Some 1\<rparr>, 0)
   \<and> mint_all empty_registry [(0, ''alice''), (0, ''bob'')]
     = Inr (\<lparr>tokenToOwner = [(0, ''bob'')], escrowAccess = [], TOTAL_SUPPLY = Some 1\<rparr>, [0, 0])"
  by (simp add: mint_to_def empty_registry_def storage_getPrimitive_def MAX_SUPPLY_def
      PersistentMap_set_def word_le_nat_alt)

text \<open>
  The limit check compares the stored counter, which each mint overwrites with the
  identifier it holds plus one: after a single mint holding 10, the second mint aborts
  with \<open>ERROR_MAXIMUM_TOKEN_LIMIT_REACHED\<close> although one token exists.
\<close>

lemma mint_to_limit_follows_identifier:
  "mint_all empty_registry [(10, ''alice''), (11, ''bob'')] = Inl ERROR_MAXIMUM_TOKEN_LIMIT_REACHED"
  by (simp add: mint_to_def empty_registry_def storage_getPrimitive_def MAX_SUPPLY_def
      PersistentMap_set_def word_le_nat_alt)

text \<open>
  C8.  From the empty registry, eleven mints whose invocations hold 0 all succeed, one
  more than \<open>MAX_SUPPLY\<close>: every one of them stores 1 as the counter, so the limit check
  never fails.
\<close>

theorem mint_to_limit_not_enforced:
  "mint_all empty_registry
     [(0, ''alice''), (0, ''alice''), (0, ''alice''), (0, ''alice''), (0, ''alice''), (0, ''alice''),
      (0, ''alice''), (0, ''alice''), (0, ''alice''), (0, ''alice''), (0, ''alice'')]
     = Inr (\<lparr>tokenToOwner = [(0, ''alice'')], escrowAccess = [], TOTAL_SUPPLY = Some 1\<rparr>,
            [0, 0, 0, 0, 0, 0, 0, 0, 0, 0, 0])"
  by (simp add: mint_to_def empty_registry_def storage_getPrimitive_def MAX_SUPPLY_def
      PersistentMap_set_def word_le_nat_alt)

section \<open>The balance ledger\<close>

text \<open>
  With the exact deposit attached, \<open>ft_transfer\<close> aborts for insufficient funds exactly
  when the amount is at least the sender's balance: the source asserts
  \<^verbatim>\<open>senderBalance > amount\<close>.
\<close>

lemma ft_transfer_insufficient_iff:
  assumes "attachedDeposit ctx = EXPECTED_DEPOSIT"
  shows "ft_transfer ctx st receiver_id amount memo = Inl ERROR_INSUFFICIENT_FUNDS
         \<longleftrightarrow> PersistentMap_get_default (balances st) (sender ctx) 0 \<le> amount"
  using assms by (auto simp add: ft_transfer_def Let_def)

text \<open>Writing one balance changes the total by the difference to what was recorded.\<close>

lemma sum_list_update:
  "distinct (map fst m) \<Longrightarrow>
   sum_list (map (\<lambda>p. unat (snd p)) (AList.update k v m))
     + (case map_of m k of None \<Rightarrow> 0 | Some x \<Rightarrow> unat x)
   = sum_list (map (\<lambda>p. unat (snd p)) m) + unat (v :: u128)"
proof (induction m)
  case Nil
  then show ?case by simp
next
  case (Cons p m)
  obtain k' v' where p: "p = (k', v')" by (cases p)
  show ?case
  proof (cases "k' = k")
    case True
    with Cons.prems p have "map_of m k = None"
      by (simp add: map_of_eq_None_iff)
    with True p show ?thesis by simp
  next
    case False
    with Cons p show ?thesis by simp
  qed
qed

lemma total_balance_set:
  "distinct (map fst (balances st)) \<Longrightarrow>
   total_balance (st\<lparr>balances := PersistentMap_set (balances st) k v\<rparr>)
     + unat (PersistentMap_get_default (balances st) k 0)
   = total_balance st + unat v"
proof -
  assume "distinct (map fst (balances st))"
  from sum_list_update [OF this, of k v] show ?thesis
    by (cases "map_of (balances st) k")
       (simp_all add: total_balance_def PersistentMap_set_def PersistentMap_get_default_def)
qed

text \<open>
  A successful \<open>ft_transfer\<close> to an account other than the sender, whose credit does not
  wrap the receiver's \<^verbatim>\<open>u128\<close> balance, leaves the total of all balances unchanged
  (and the store keeps one record per account).
\<close>

lemma ft_transfer_conserves:
  assumes ok: "ft_transfer ctx st receiver_id amount memo = Inr st'"
    and keys: "distinct (map fst (balances st))"
    and other: "receiver_id \<noteq> sender ctx"
    and room: "unat (PersistentMap_get_default (balances st) receiver_id 0) + unat amount < 2 ^ 128"
  shows "total_balance st' = total_balance st \<and> distinct (map fst (balances st'))"
proof -
  let ?sb = "PersistentMap_get_default (balances st) (sender ctx) 0"
  let ?rb = "PersistentMap_get_default (balances st) receiver_id 0"
  let ?st1 = "st\<lparr>balances := PersistentMap_set (balances st) (sender ctx) (?sb - amount)\<rparr>"
  from ok have enough: "amount < ?sb"
    by (simp add: ft_transfer_def Let_def split: if_splits)
  from ok have st': "st' = ?st1\<lparr>balances := PersistentMap_set (balances ?st1) receiver_id (?rb + amount)\<rparr>"
    by (auto simp add: ft_transfer_def Let_def split: if_splits)
  have keys1: "distinct (map fst (balances ?st1))"
    using keys by (simp add: PersistentMap_set_def distinct_update)
  have rb1: "PersistentMap_get_default (balances ?st1) receiver_id 0 = ?rb"
    using other by (simp add: PersistentMap_get_default_def PersistentMap_set_def update_conv')
  have debit: "unat (?sb - amount) = unat ?sb - unat amount"
    using enough by (simp add: unat_sub word_le_less_eq)
  have le: "unat amount \<le> unat ?sb"
    using enough by (simp add: word_less_nat_alt)
  have credit: "unat (?rb + amount) = unat ?rb + unat amount"
    using room by (simp add: unat_add_lem [THEN iffD1])
  have "total_balance ?st1 + unat ?sb = total_balance st + unat (?sb - amount)"
    using total_balance_set [OF keys] by simp
  moreover have "total_balance st' + unat ?rb = total_balance ?st1 + unat (?rb + amount)"
    using total_balance_set [OF keys1, of receiver_id "?rb + amount"] rb1 st' by simp
  ultimately have "total_balance st' = total_balance st"
    using debit credit le by arith
  moreover have "distinct (map fst (balances st'))"
    using keys1 st' by (simp add: PersistentMap_set_def distinct_update)
  ultimately show ?thesis by simp
qed

text \<open>
  Once the deposit assertion has passed (here: read as equality of values), a transfer
  to oneself reads the receiver's balance before the sender's debit is written and
  writes the credit last: alice, holding 10, transfers 3 to alice and ends with 13.
\<close>

lemma ft_transfer_to_self_inflates:
  "ft_transfer \<lparr>predecessor = ''alice'', sender = ''alice'', contractName = ''ft'', attachedDeposit = 1\<rparr>
     \<lparr>balances = [(''alice'', 10)]\<rparr> ''alice'' 3 None
     = Inr \<lparr>balances = [(''alice'', 13)]\<rparr>
   \<and> total_balance \<lparr>balances = [(''alice'', 10)]\<rparr> = 10
   \<and> total_balance \<lparr>balances = [(''alice'', 13)]\<rparr> = 13"
  by (simp add: ft_transfer_def EXPECTED_DEPOSIT_def PersistentMap_get_default_def
      PersistentMap_set_def total_balance_def)

text \<open>
  C4.  With the exact deposit attached, a transfer of the sender's whole balance aborts
  with \<open>ERROR_INSUFFICIENT_FUNDS\<close> (alice holds 5 and sends 5), and so does a transfer of
  0 by an account holding 0 (no record).
\<close>

theorem ft_transfer_rejects_exact_balance:
  "ft_transfer \<lparr>predecessor = ''alice'', sender = ''alice'', contractName = ''ft'', attachedDeposit = 1\<rparr>
     \<lparr>balances = [(''alice'', 5)]\<rparr> ''bob'' 5 None
     = Inl ERROR_INSUFFICIENT_FUNDS
   \<and> ft_transfer \<lparr>predecessor = ''alice'', sender = ''alice'', contractName = ''ft'', attachedDeposit = 1\<rparr>
     \<lparr>balances = []\<rparr> ''bob'' 0 None
     = Inl ERROR_INSUFFICIENT_FUNDS"
  by (simp add: ft_transfer_def EXPECTED_DEPOSIT_def PersistentMap_get_default_def)

text \<open>
  C9.  \<open>ft_balance_of\<close> returns \<^verbatim>\<open>null\<close> exactly for the accounts with no balance
  record; on the empty ledger alice's balance is \<^verbatim>\<open>null\<close>, not 0.
\<close>

theorem ft_balance_of_missing_is_null:
  "(ft_balance_of st account_id = None) = (\<not> PersistentMap_contains (balances st) account_id)
   \<and> ft_balance_of \<lparr>balances = []\<rparr> ''alice'' = None"
  by (simp add: ft_balance_of_def PersistentMap_get_def PersistentMap_contains_def
      split: option.splits)

section \<open>Resolving a transfer call\<close>

text \<open>
  \<open>ft_resolve_transfer\<close> aborts exactly when the caller is not the account named by its
  \<^verbatim>\<open>sender_id\<close> argument; when it passes, the ledger is returned as it was and no
  value is returned.
\<close>

lemma ft_resolve_transfer_fails_iff:
  "ft_resolve_transfer ctx st sender_id receiver_id amount = Inl ERROR_CALLER_ID_DOES_NOT_MATCH_EXPECTATION
   \<longleftrightarrow> predecessor ctx \<noteq> sender_id"
  by (simp add: ft_resolve_transfer_def)

lemma ft_resolve_transfer_unchanged:
  assumes "ft_resolve_transfer ctx st sender_id receiver_id amount = Inr (st', r)"
  shows "st' = st \<and> r = None"
  using assms by (simp add: ft_resolve_transfer_def split: if_splits)

text \<open>
  C2.  The spec's scenario: alice holds 100 and calls \<^verbatim>\<open>ft_transfer_call(bob, 100)\<close>; the
  call aborts with \<open>ERROR_INSUFFICIENT_FUNDS\<close>.  Holding 101 the call succeeds and leaves
  alice 1 and bob 100; \<open>ft_resolve_transfer(alice, bob, 100)\<close> invoked by the contract
  itself then aborts, and invoked by alice it returns the ledger unchanged with no
  value: nothing is refunded, whatever the receiver reported.
\<close>

theorem ft_resolve_transfer_refunds_nothing:
  "ft_transfer_call \<lparr>predecessor = ''alice'', sender = ''alice'', contractName = ''ft'', attachedDeposit = 1\<rparr>
     \<lparr>balances = [(''alice'', 100)]\<rparr> ''bob'' 100 None ''msg''
     = Inl ERROR_INSUFFICIENT_FUNDS
   \<and> ft_transfer_call \<lparr>predecessor = ''alice'', sender = ''alice'', contractName = ''ft'', attachedDeposit = 1\<rparr>
     \<lparr>balances = [(''alice'', 101)]\<rparr> ''bob'' 100 None ''msg''
     = Inr \<lparr>balances = [(''alice'', 1), (''bob'', 100)]\<rparr>
   \<and> ft_resolve_transfer \<lparr>predecessor = ''ft'', sender = ''alice'', contractName = ''ft'', attachedDeposit = 0\<rparr>
     \<lparr>balances = [(''alice'', 1), (''bob'', 100)]\<rparr> ''alice'' ''bob'' 100
     = Inl ERROR_CALLER_ID_DOES_NOT_MATCH_EXPECTATION
   \<and> ft_resolve_transfer \<lparr>predecessor = ''alice'', sender = ''alice'', contractName = ''ft'', attachedDeposit = 0\<rparr>
     \<lparr>balances = [(''alice'', 1), (''bob'', 100)]\<rparr> ''alice'' ''bob'' 100
     = Inr (\<lparr>balances = [(''alice'', 1), (''bob'', 100)]\<rparr>, None)"
  by (simp add: ft_transfer_call_def ft_resolve_transfer_def EXPECTED_DEPOSIT_def
      PersistentMap_get_default_def PersistentMap_set_def)

text \<open>
  C3.  The assertion compares the caller with the \<^verbatim>\<open>sender_id\<close> argument, not with the
  contract's own account: alice, an ordinary caller, passes it by naming herself, and
  the contract's own account calling on alice's behalf is refused.
\<close>

theorem ft_resolve_transfer_checks_sender_argument:
  "ft_resolve_transfer \<lparr>predecessor = ''alice'', sender = ''alice'', contractName = ''ft'', attachedDeposit = 0\<rparr>
     \<lparr>balances = [(''alice'', 1), (''bob'', 100)]\<rparr> ''alice'' ''bob'' 100
     \<noteq> Inl ERROR_CALLER_ID_DOES_NOT_MATCH_EXPECTATION
   \<and> ft_resolve_transfer \<lparr>predecessor = ''ft'', sender = ''alice'', contractName = ''ft'', attachedDeposit = 0\<rparr>
     \<lparr>balances = [(''alice'', 1), (''bob'', 100)]\<rparr> ''alice'' ''bob'' 100
     = Inl ERROR_CALLER_ID_DOES_NOT_MATCH_EXPECTATION"
  by (simp add: ft_resolve_transfer_def)

end
